theory Spec2Isabelle
  imports Main "HOL-Library.Word" "HOL-Library.Sublist"
begin

section \<open>The address-book HTTP layer (addrservice/app.py)\<close>

text \<open>
  The module defines five request handlers on top of the hosting web framework, the
  access-log hook \<open>log_function\<close> and the application factory
  \<open>make_addrservice_app\<close>. The handlers talk to a storage collaborator
  (\<open>AddressBookService\<close>) through seven method calls.

  The model threads one explicit world through every call: the handler object being
  filled with the response, the collaborator's state, and a chronological trace of the
  two kinds of effects the module has on its surroundings (lines written to the injected
  logger, calls made on the collaborator). Exceptions are values: every function that can
  raise returns \<open>pyexc + 'a\<close>, with \<open>Inl\<close> for the raised exception.
\<close>

subsection \<open>JSON values\<close>

text \<open>
  What \<open>json.loads\<close> returns and what \<open>finish\<close> serialises. Objects are association
  lists in insertion order. Numbers with a fractional part are not represented: no
  handler looks inside a number.
\<close>

datatype json =
    JNull
  | JBool bool
  | JInt int
  | JStr string
  | JArr "json list"
  | JObj "(string \<times> json) list"

text \<open>Python's truth value of a decoded JSON value, as the conditional expression uses it.\<close>

fun truthy :: "json \<Rightarrow> bool" where
  "truthy JNull = False"
| "truthy (JBool b) = b"
| "truthy (JInt n) = (n \<noteq> 0)"
| "truthy (JStr s) = (s \<noteq> [])"
| "truthy (JArr xs) = (xs \<noteq> [])"
| "truthy (JObj kvs) = (kvs \<noteq> [])"

subsection \<open>Exceptions\<close>

text \<open>
  An exception is represented by the most specific class among those the module cares
  about, together with the text \<open>str(e)\<close> gives for it. \<open>JSONDecodeError\<close> and
  \<open>UnicodeDecodeError\<close> are subclasses of \<open>ValueError\<close>; \<open>OtherError\<close> stands for any
  exception that is an instance of none of the listed classes.
\<close>

datatype pyexc =
    KeyError string
  | ValueError string
  | JSONDecodeError string
  | UnicodeDecodeError string
  | TypeError string
  | HTTPError int "string option"
  | OtherError string

text \<open>Subscription \<open>v[k]\<close> with a string key.\<close>

fun getitem :: "json \<Rightarrow> string \<Rightarrow> pyexc + json" where
  "getitem (JObj kvs) k =
     (case map_of kvs k of
        None \<Rightarrow> Inl (KeyError ([CHR 0x27] @ k @ [CHR 0x27]))
      | Some v \<Rightarrow> Inr v)"
| "getitem (JArr xs) k = Inl (TypeError ''list indices must be integers or slices, not str'')"
| "getitem (JStr s) k = Inl (TypeError ''string indices must be integers'')"
| "getitem v k = Inl (TypeError ''object is not subscriptable'')"

subsection \<open>Library functions taken as parameters\<close>

type_synonym bytes = "8 word list"

text \<open>
  The standard-library and framework functions the module calls but does not define:
  \<open>bytes.decode('utf-8')\<close>, \<open>json.loads\<close>, the table of standard reason phrases
  (\<open>httputil.responses.get(code, "Unknown")\<close>) and \<open>traceback.format_exception\<close>.
\<close>

record pylib =
  decode_utf8 :: "bytes \<Rightarrow> pyexc + string"
  json_loads :: "string \<Rightarrow> pyexc + json"
  responses :: "int \<Rightarrow> string"
  format_exception :: "pyexc \<Rightarrow> string list"

subsection \<open>Requests, handlers, the collaborator\<close>

text \<open>
  The attributes of \<open>self.request\<close> that the module reads. \<open>time_text\<close> is the rendering
  of the floating-point number \<open>1000.0 * request_time()\<close> by \<open>str.format\<close>; it is kept as
  text.
\<close>

record request =
  "method" :: string
  uri :: string
  path :: string
  remote_ip :: string
  body :: bytes
  time_text :: string

text \<open>
  The part of a \<open>RequestHandler\<close> object that holds the response: \<open>_status_code\<close>,
  \<open>_reason\<close>, the headers set by the module, the chunk given to \<open>finish\<close> (\<open>None\<close> when
  \<open>finish()\<close> was called without one, or not at all) and whether \<open>finish\<close> has run.
\<close>

record handler =
  status_code :: int
  reason :: string
  headers :: "string \<rightharpoonup> string"
  chunk :: "json option"
  finished :: bool

datatype level = DEBUG | INFO | WARNING | ERROR

datatype svc_call =
    Uptime_millis
  | Status
  | Get_all_addresses
  | Post_address json
  | Get_address string
  | Put_address string json
  | Delete_address string

text \<open>
  An effect on the surroundings: a call \<open>logger.<level>(msg, exc_info=...)\<close> on the
  injected logger, or a method call on the collaborator.
\<close>

datatype event =
    Log level string bool
  | Call svc_call

record 's world =
  hnd :: handler
  store :: 's
  trace :: "event list"

text \<open>
  The collaborator's contract. Every operation may raise and may change the
  collaborator's own state.
\<close>

record 's service =
  uptime_millis :: "'s \<Rightarrow> (pyexc + int) \<times> 's"
  status :: "'s \<Rightarrow> (pyexc + json) \<times> 's"
  get_all_addresses :: "'s \<Rightarrow> (pyexc + json) \<times> 's"
  post_address :: "json \<Rightarrow> 's \<Rightarrow> (pyexc + string) \<times> 's"
  get_address :: "string \<Rightarrow> 's \<Rightarrow> (pyexc + json) \<times> 's"
  put_address :: "string \<Rightarrow> json \<Rightarrow> 's \<Rightarrow> (pyexc + unit) \<times> 's"
  delete_address :: "string \<Rightarrow> 's \<Rightarrow> (pyexc + unit) \<times> 's"

text \<open>A call on the collaborator: it is recorded in the trace, then run on the store.\<close>

definition invoke ::
  "svc_call \<Rightarrow> ('s \<Rightarrow> (pyexc + 'a) \<times> 's) \<Rightarrow> 's world \<Rightarrow> (pyexc + 'a) \<times> 's world" where
  "invoke c f w =
     (case f (store w) of
        (r, s') \<Rightarrow> (r, w\<lparr>store := s', trace := trace w @ [Call c]\<rparr>))"

definition emit :: "level \<Rightarrow> string \<Rightarrow> bool \<Rightarrow> 's world \<Rightarrow> 's world" where
  "emit lv msg exc_info w = w\<lparr>trace := trace w @ [Log lv msg exc_info]\<rparr>"

subsection \<open>Text of integers\<close>

definition digit :: "nat \<Rightarrow> char" where
  "digit d = char_of (48 + d)"

function str_nat :: "nat \<Rightarrow> string" where
  "str_nat n = (if n < 10 then [digit n] else str_nat (n div 10) @ [digit (n mod 10)])"
  by pat_completeness auto
termination
  by (relation "measure (\<lambda>n. n)") auto

declare str_nat.simps [simp del]

definition str_int :: "int \<Rightarrow> string" where
  "str_int i = (if i < 0 then CHR ''-'' # str_nat (nat (- i)) else str_nat (nat i))"

subsection \<open>Framework primitives used by the module\<close>

text \<open>
  \<open>set_status(code, reason)\<close>: without a reason the standard phrase is stored.
  \<open>set_header\<close> replaces the header. \<open>clear()\<close> resets the response.
\<close>

definition set_status :: "pylib \<Rightarrow> int \<Rightarrow> string option \<Rightarrow> 's world \<Rightarrow> 's world" where
  "set_status lib code rsn w =
     w\<lparr>hnd := (hnd w)\<lparr>status_code := code,
                       reason := (case rsn of None \<Rightarrow> responses lib code | Some r \<Rightarrow> r)\<rparr>\<rparr>"

definition set_header :: "string \<Rightarrow> string \<Rightarrow> 's world \<Rightarrow> 's world" where
  "set_header name val w = w\<lparr>hnd := (hnd w)\<lparr>headers := (headers (hnd w))(name \<mapsto> val)\<rparr>\<rparr>"

definition get_status :: "'s world \<Rightarrow> int" where
  "get_status w = status_code (hnd w)"

definition clear :: "pylib \<Rightarrow> 's world \<Rightarrow> 's world" where
  "clear lib w =
     w\<lparr>hnd := (hnd w)\<lparr>status_code := 200, reason := responses lib 200,
                       headers := Map.empty, chunk := None\<rparr>\<rparr>"

subsection \<open>Route patterns\<close>

definition ADDRESSBOOK_ENTRY_URI_FORMAT_STR :: "string \<Rightarrow> string" where
  "ADDRESSBOOK_ENTRY_URI_FORMAT_STR ident = ''/addressbook/'' @ ident"

text \<open>
  The framework compiles each pattern with \<open>$\<close> appended and applies \<open>re.match\<close> to the
  request path, so a pattern has to match the whole path; \<open>$\<close> also matches in front of
  one final newline.
\<close>

definition at_end :: "string \<Rightarrow> bool" where
  "at_end s = (s = [] \<or> s = [CHR 0x0A])"

text \<open>The tail \<open>/?$\<close> that closes all four patterns.\<close>

definition opt_slash_end :: "string \<Rightarrow> bool" where
  "opt_slash_end s = (at_end s \<or> (case s of [] \<Rightarrow> False | c # r \<Rightarrow> c = CHR ''/'' \<and> at_end r))"

fun strip_prefix :: "string \<Rightarrow> string \<Rightarrow> string option" where
  "strip_prefix [] s = Some s"
| "strip_prefix (p # ps) [] = None"
| "strip_prefix (p # ps) (c # cs) = (if p = c then strip_prefix ps cs else None)"

text \<open>A literal followed by \<open>/?$\<close>: \<open>/healthz/?\<close>, \<open>/readiness/?\<close>, \<open>/addressbook/?\<close>.\<close>

definition match_literal :: "string \<Rightarrow> string \<Rightarrow> bool" where
  "match_literal lit p = (case strip_prefix lit p of None \<Rightarrow> False | Some r \<Rightarrow> opt_slash_end r)"

text \<open>The character class \<open>[a-zA-Z0-9-]\<close>.\<close>

definition id_char :: "char \<Rightarrow> bool" where
  "id_char c =
     (let n = of_char c :: nat
      in (97 \<le> n \<and> n \<le> 122) \<or> (65 \<le> n \<and> n \<le> 90) \<or> (48 \<le> n \<and> n \<le> 57) \<or> n = 45)"

text \<open>
  \<open>ADDRESSBOOK_ENTRY_REGEX\<close>, \<open>/addressbook/(?P<id>[a-zA-Z0-9-]+)/?\<close>: the group takes
  the longest run of class characters, which must not be empty, and \<open>/?$\<close> has to match
  what is left. The result is the group \<open>id\<close>.
\<close>

definition ADDRESSBOOK_ENTRY_REGEX :: "string \<Rightarrow> string option" where
  "ADDRESSBOOK_ENTRY_REGEX p =
     (case strip_prefix ''/addressbook/'' p of
        None \<Rightarrow> None
      | Some r \<Rightarrow>
          (let ident = takeWhile id_char r; rest = dropWhile id_char r
           in if ident \<noteq> [] \<and> opt_slash_end rest then Some ident else None))"

definition ADDRESSBOOK_REGEX :: "string \<Rightarrow> bool" where
  "ADDRESSBOOK_REGEX p = match_literal ''/addressbook'' p"

datatype handler_class =
    LivenessRequestHandler
  | ReadinessRequestHandler
  | AddressBookRequestHandler
  | AddressBookEntryRequestHandler string
  | DefaultRequestHandler

text \<open>
  The route table of \<open>make_addrservice_app\<close>, tried in order; a path that matches no
  pattern goes to \<open>default_handler_class\<close>. The entry handler receives the group \<open>id\<close>.
\<close>

definition find_handler :: "string \<Rightarrow> handler_class" where
  "find_handler p =
     (if match_literal ''/healthz'' p then LivenessRequestHandler
      else if match_literal ''/readiness'' p then ReadinessRequestHandler
      else if ADDRESSBOOK_REGEX p then AddressBookRequestHandler
      else (case ADDRESSBOOK_ENTRY_REGEX p of
              Some ident \<Rightarrow> AddressBookEntryRequestHandler ident
            | None \<Rightarrow> DefaultRequestHandler))"

subsection \<open>The access-log hook\<close>

text \<open>
  \<open>log_function\<close> of the module. The framework calls it from \<open>finish\<close>, once the response
  is complete; the logger it uses is the one stored on the handler.
\<close>

definition log_function :: "request \<Rightarrow> 's world \<Rightarrow> 's world" where
  "log_function req w =
     (let status = get_status w;
          msg = ''RESPOSE: '' @ str_int status @ '' '' @ method req @ '' '' @ uri req
                @ '' ('' @ remote_ip req @ '') '' @ time_text req @ ''ms''
      in if get_status w < 400 then emit INFO msg True w
         else if get_status w < 500 then emit WARNING msg True w
         else emit ERROR msg True w)"

text \<open>
  \<open>finish(chunk)\<close> of the framework: a second call raises; a chunk other than \<open>None\<close> is
  written first, and \<open>write\<close> accepts only text and dictionaries; then the request is
  marked finished and the access-log hook runs.
\<close>

fun writable :: "json \<Rightarrow> bool" where
  "writable (JObj kvs) = True"
| "writable (JStr s) = True"
| "writable v = False"

definition finish :: "request \<Rightarrow> json \<Rightarrow> 's world \<Rightarrow> (pyexc + unit) \<times> 's world" where
  "finish req c w =
     (if finished (hnd w) then (Inl (OtherError ''finish() called twice''), w)
      else if c \<noteq> JNull \<and> \<not> writable c
      then (Inl (TypeError ''write() only accepts bytes, unicode, and dict objects''), w)
      else (Inr (),
            log_function req
              (w\<lparr>hnd := (hnd w)\<lparr>chunk := (if c = JNull then chunk (hnd w) else Some c),
                                finished := True\<rparr>\<rparr>)))"

subsection \<open>BaseRequestHandler and DefaultRequestHandler\<close>

definition BaseRequestHandler_prepare :: "request \<Rightarrow> 's world \<Rightarrow> (pyexc + unit) \<times> 's world" where
  "BaseRequestHandler_prepare req w =
     (let msg = ''REQUEST: '' @ method req @ '' '' @ uri req @ '' ('' @ remote_ip req @ '')''
      in (Inr (), emit DEBUG msg False w))"

fun join :: "string \<Rightarrow> string list \<Rightarrow> string" where
  "join sep [] = []"
| "join sep [x] = x"
| "join sep (x # y # ys) = x @ sep @ join sep (y # ys)"

text \<open>
  \<open>write_error(status_code, **kwargs)\<close>; \<open>exc_info\<close> is \<open>None\<close> when the keyword is
  absent.
\<close>

definition write_error ::
  "bool \<Rightarrow> pylib \<Rightarrow> request \<Rightarrow> int \<Rightarrow> pyexc option \<Rightarrow> 's world \<Rightarrow> (pyexc + unit) \<times> 's world" where
  "write_error serve_traceback lib req code exc_info w =
     (let w1 = set_header ''Content-Type'' ''application/json; charset=UTF-8'' w;
          body0 = [(''method'', JStr (method req)),
                   (''uri'', JStr (path req)),
                   (''code'', JInt code),
                   (''message'', JStr (reason (hnd w1)))];
          body1 = (if serve_traceback \<and> exc_info \<noteq> None
                   then body0 @ [(''trace'',
                                  JStr (join [CHR 0x0A] (format_exception lib (the exc_info))))]
                   else body0)
      in finish req (JObj body1) w1)"

definition DefaultRequestHandler_initialize ::
  "pylib \<Rightarrow> int \<Rightarrow> string \<Rightarrow> 's world \<Rightarrow> 's world" where
  "DefaultRequestHandler_initialize lib code message w = set_status lib code (Some message) w"

definition DefaultRequestHandler_prepare :: "'s world \<Rightarrow> (pyexc + unit) \<times> 's world" where
  "DefaultRequestHandler_prepare w =
     (Inl (HTTPError (status_code (hnd w)) (Some (reason (hnd w)))), w)"

subsection \<open>Health handlers\<close>

definition LivenessRequestHandler_get ::
  "pylib \<Rightarrow> 's service \<Rightarrow> request \<Rightarrow> 's world \<Rightarrow> (pyexc + unit) \<times> 's world" where
  "LivenessRequestHandler_get lib svc req w =
     (case invoke Uptime_millis (uptime_millis svc) w of
        (Inl e, w1) \<Rightarrow> (Inl e, w1)
      | (Inr n, w1) \<Rightarrow>
          (let info = JObj [(''uptime'', JInt n)]
           in finish req info (set_status lib 200 None w1)))"

definition ReadinessRequestHandler_get ::
  "pylib \<Rightarrow> 's service \<Rightarrow> request \<Rightarrow> 's world \<Rightarrow> (pyexc + unit) \<times> 's world" where
  "ReadinessRequestHandler_get lib svc req w =
     (case invoke Status (status svc) w of
        (Inl e, w1) \<Rightarrow> (Inl e, w1)
      | (Inr info, w1) \<Rightarrow>
          (case getitem info ''ready'' of
             Inl e \<Rightarrow> (Inl e, w1)
           | Inr r \<Rightarrow>
               (let st = (if truthy r then 200 else 503)
                in finish req info (set_status lib st None w1))))"

subsection \<open>Address-book handlers\<close>

text \<open>
  A \<open>try\<close> statement whose \<open>except\<close> clauses all raise: the clauses are a function from
  the exception caught to the exception raised (the identity where no clause matches).
\<close>

definition except :: "(pyexc + 'a) \<times> 'w \<Rightarrow> (pyexc \<Rightarrow> pyexc) \<Rightarrow> (pyexc + 'a) \<times> 'w" where
  "except r clauses = (case r of (Inl e, w) \<Rightarrow> (Inl (clauses e), w) | (Inr x, w) \<Rightarrow> (Inr x, w))"

definition AddressBookRequestHandler_get ::
  "pylib \<Rightarrow> 's service \<Rightarrow> request \<Rightarrow> 's world \<Rightarrow> (pyexc + unit) \<times> 's world" where
  "AddressBookRequestHandler_get lib svc req w =
     (case invoke Get_all_addresses (get_all_addresses svc) w of
        (Inl e, w1) \<Rightarrow> (Inl e, w1)
      | (Inr all_addrs, w1) \<Rightarrow> finish req all_addrs (set_status lib 200 None w1))"

text \<open>The \<open>except\<close> clauses of \<open>post\<close>, in the order of the source.\<close>

fun post_clauses :: "pyexc \<Rightarrow> pyexc" where
  "post_clauses (JSONDecodeError m) = HTTPError 400 (Some ''Invalid JSON body'')"
| "post_clauses (TypeError m) = HTTPError 400 (Some ''Invalid JSON body'')"
| "post_clauses (ValueError m) = HTTPError 400 (Some m)"
| "post_clauses (UnicodeDecodeError m) = HTTPError 400 (Some m)"
| "post_clauses e = e"

definition AddressBookRequestHandler_post ::
  "pylib \<Rightarrow> 's service \<Rightarrow> request \<Rightarrow> 's world \<Rightarrow> (pyexc + unit) \<times> 's world" where
  "AddressBookRequestHandler_post lib svc req w =
     except
       (case decode_utf8 lib (body req) of
          Inl e \<Rightarrow> (Inl e, w)
        | Inr txt \<Rightarrow>
            (case json_loads lib txt of
               Inl e \<Rightarrow> (Inl e, w)
             | Inr addr \<Rightarrow>
                 (case invoke (Post_address addr) (post_address svc addr) w of
                    (Inl e, w1) \<Rightarrow> (Inl e, w1)
                  | (Inr ident, w1) \<Rightarrow>
                      (let addr_uri = ADDRESSBOOK_ENTRY_URI_FORMAT_STR ident
                       in finish req JNull
                            (set_header ''Location'' addr_uri (set_status lib 201 None w1))))))
       post_clauses"

fun get_clauses :: "pyexc \<Rightarrow> pyexc" where
  "get_clauses (KeyError m) = HTTPError 404 (Some m)"
| "get_clauses e = e"

definition AddressBookEntryRequestHandler_get ::
  "pylib \<Rightarrow> 's service \<Rightarrow> request \<Rightarrow> string \<Rightarrow> 's world \<Rightarrow> (pyexc + unit) \<times> 's world" where
  "AddressBookEntryRequestHandler_get lib svc req ident w =
     except
       (case invoke (Get_address ident) (get_address svc ident) w of
          (Inl e, w1) \<Rightarrow> (Inl e, w1)
        | (Inr addr, w1) \<Rightarrow> finish req addr (set_status lib 200 None w1))
       get_clauses"

fun put_clauses :: "pyexc \<Rightarrow> pyexc" where
  "put_clauses (JSONDecodeError m) = HTTPError 400 (Some ''Invalid JSON body'')"
| "put_clauses (TypeError m) = HTTPError 400 (Some ''Invalid JSON body'')"
| "put_clauses (KeyError m) = HTTPError 404 (Some m)"
| "put_clauses (ValueError m) = HTTPError 400 (Some m)"
| "put_clauses (UnicodeDecodeError m) = HTTPError 400 (Some m)"
| "put_clauses e = e"

definition AddressBookEntryRequestHandler_put ::
  "pylib \<Rightarrow> 's service \<Rightarrow> request \<Rightarrow> string \<Rightarrow> 's world \<Rightarrow> (pyexc + unit) \<times> 's world" where
  "AddressBookEntryRequestHandler_put lib svc req ident w =
     except
       (case decode_utf8 lib (body req) of
          Inl e \<Rightarrow> (Inl e, w)
        | Inr txt \<Rightarrow>
            (case json_loads lib txt of
               Inl e \<Rightarrow> (Inl e, w)
             | Inr addr \<Rightarrow>
                 (case invoke (Put_address ident addr) (put_address svc ident addr) w of
                    (Inl e, w1) \<Rightarrow> (Inl e, w1)
                  | (Inr u, w1) \<Rightarrow> finish req JNull (set_status lib 204 None w1))))
       put_clauses"

fun delete_clauses :: "pyexc \<Rightarrow> pyexc" where
  "delete_clauses (KeyError m) = HTTPError 404 (Some m)"
| "delete_clauses e = e"

definition AddressBookEntryRequestHandler_delete ::
  "pylib \<Rightarrow> 's service \<Rightarrow> request \<Rightarrow> string \<Rightarrow> 's world \<Rightarrow> (pyexc + unit) \<times> 's world" where
  "AddressBookEntryRequestHandler_delete lib svc req ident w =
     except
       (case invoke (Delete_address ident) (delete_address svc ident) w of
          (Inl e, w1) \<Rightarrow> (Inl e, w1)
        | (Inr u, w1) \<Rightarrow> finish req JNull (set_status lib 204 None w1))
       delete_clauses"

subsection \<open>The application and the request cycle\<close>

text \<open>
  The settings \<open>make_addrservice_app\<close> passes to the framework that the model uses:
  \<open>serve_traceback\<close> is the \<open>debug\<close> argument; the default handler is constructed with
  status 404 and message \<open>Unknown Endpoint\<close>.
\<close>

record settings =
  serve_traceback :: bool
  default_status_code :: int
  default_message :: string

definition make_addrservice_app :: "bool \<Rightarrow> settings" where
  "make_addrservice_app debug =
     \<lparr>serve_traceback = debug, default_status_code = 404,
      default_message = ''Unknown Endpoint''\<rparr>"

text \<open>
  The framework's error path: \<open>send_error\<close> clears the response, takes the reason of an
  \<open>HTTPError\<close> when it is not empty, sets the status and calls \<open>write_error\<close> with the
  exception; should \<open>write_error\<close> not have finished the response, it finishes it.
\<close>

definition send_error :: "settings \<Rightarrow> pylib \<Rightarrow> request \<Rightarrow> int \<Rightarrow> pyexc \<Rightarrow> 's world \<Rightarrow> 's world" where
  "send_error app lib req code e w =
     (let w1 = clear lib w;
          rsn = (case e of
                   HTTPError c (Some r) \<Rightarrow> if r \<noteq> [] then Some r else None
                 | _ \<Rightarrow> None);
          w2 = set_status lib code rsn w1;
          w3 = snd (write_error (serve_traceback app) lib req code (Some e) w2)
      in if finished (hnd w3) then w3 else snd (finish req JNull w3))"

definition handle_request_exception ::
  "settings \<Rightarrow> pylib \<Rightarrow> request \<Rightarrow> pyexc \<Rightarrow> 's world \<Rightarrow> 's world" where
  "handle_request_exception app lib req e w =
     (if finished (hnd w) then w
      else (case e of
              HTTPError code r \<Rightarrow> send_error app lib req code e w
            | _ \<Rightarrow> send_error app lib req 500 e w))"

definition SUPPORTED_METHODS :: "string list" where
  "SUPPORTED_METHODS = [''GET'', ''HEAD'', ''POST'', ''DELETE'', ''PATCH'', ''PUT'', ''OPTIONS'']"

text \<open>A verb the handler class does not define raises 405.\<close>

definition unimplemented :: "'s world \<Rightarrow> (pyexc + unit) \<times> 's world" where
  "unimplemented w = (Inl (HTTPError 405 None), w)"

definition initialize :: "settings \<Rightarrow> pylib \<Rightarrow> handler_class \<Rightarrow> 's world \<Rightarrow> 's world" where
  "initialize app lib cls w =
     (case cls of
        DefaultRequestHandler \<Rightarrow>
          DefaultRequestHandler_initialize lib (default_status_code app) (default_message app) w
      | _ \<Rightarrow> w)"

definition prepare :: "handler_class \<Rightarrow> request \<Rightarrow> 's world \<Rightarrow> (pyexc + unit) \<times> 's world" where
  "prepare cls req w =
     (case cls of
        DefaultRequestHandler \<Rightarrow> DefaultRequestHandler_prepare w
      | _ \<Rightarrow> BaseRequestHandler_prepare req w)"

definition dispatch ::
  "pylib \<Rightarrow> 's service \<Rightarrow> handler_class \<Rightarrow> request \<Rightarrow> 's world \<Rightarrow> (pyexc + unit) \<times> 's world" where
  "dispatch lib svc cls req w =
     (case cls of
        LivenessRequestHandler \<Rightarrow>
          if method req = ''GET'' then LivenessRequestHandler_get lib svc req w
          else unimplemented w
      | ReadinessRequestHandler \<Rightarrow>
          if method req = ''GET'' then ReadinessRequestHandler_get lib svc req w
          else unimplemented w
      | AddressBookRequestHandler \<Rightarrow>
          if method req = ''GET'' then AddressBookRequestHandler_get lib svc req w
          else if method req = ''POST'' then AddressBookRequestHandler_post lib svc req w
          else unimplemented w
      | AddressBookEntryRequestHandler ident \<Rightarrow>
          if method req = ''GET'' then AddressBookEntryRequestHandler_get lib svc req ident w
          else if method req = ''PUT'' then AddressBookEntryRequestHandler_put lib svc req ident w
          else if method req = ''DELETE''
          then AddressBookEntryRequestHandler_delete lib svc req ident w
          else unimplemented w
      | DefaultRequestHandler \<Rightarrow> unimplemented w)"

definition new_handler :: "pylib \<Rightarrow> handler" where
  "new_handler lib =
     \<lparr>status_code = 200, reason = responses lib 200, headers = Map.empty, chunk = None,
      finished = False\<rparr>"

text \<open>
  One request, from routing to the finished response: the handler is constructed and
  initialised, a verb outside \<open>SUPPORTED_METHODS\<close> is refused, \<open>prepare\<close> runs, then the
  method named by the verb; an exception raised on the way goes to the error path, and a
  method that returns without finishing is finished by the framework.
\<close>

definition execute :: "settings \<Rightarrow> pylib \<Rightarrow> 's service \<Rightarrow> request \<Rightarrow> 's \<Rightarrow> 's world" where
  "execute app lib svc req s =
     (let cls = find_handler (path req);
          w0 = initialize app lib cls \<lparr>hnd = new_handler lib, store = s, trace = []\<rparr>
      in if method req \<notin> set SUPPORTED_METHODS
         then handle_request_exception app lib req (HTTPError 405 None) w0
         else (case prepare cls req w0 of
                 (Inl e, w1) \<Rightarrow> handle_request_exception app lib req e w1
               | (Inr u, w1) \<Rightarrow>
                   if finished (hnd w1) then w1
                   else (case dispatch lib svc cls req w1 of
                           (Inl e, w2) \<Rightarrow> handle_request_exception app lib req e w2
                         | (Inr u', w2) \<Rightarrow>
                             if finished (hnd w2) then w2
                             else (case finish req JNull w2 of
                                     (Inl e, w3) \<Rightarrow> handle_request_exception app lib req e w3
                                   | (Inr u'', w3) \<Rightarrow> w3))))"

text \<open>The field of the response body with the given key, when the body is an object.\<close>

definition body_field :: "string \<Rightarrow> handler \<Rightarrow> json option" where
  "body_field k h = (case chunk h of Some (JObj kvs) \<Rightarrow> map_of kvs k | _ \<Rightarrow> None)"

text \<open>The collaborator calls of a trace, in order.\<close>

fun calls :: "event list \<Rightarrow> svc_call list" where
  "calls [] = []"
| "calls (Call c # es) = c # calls es"
| "calls (Log lv msg x # es) = calls es"

subsection \<open>Concrete surroundings for the examples\<close>

text \<open>
  Stand-ins for the library functions and for the collaborator, used where a statement is
  evaluated on a concrete request. \<open>example_decode\<close> and \<open>example_loads\<close> agree with
  \<open>bytes.decode('utf-8')\<close> and \<open>json.loads\<close> on the bodies used below: the texts
  \<open>{}\<close> and \<open>[]\<close>, the text \<open>oops\<close>, and the single byte \<open>0xFF\<close>.
  \<open>memory_service\<close> keeps the entries in a list, creates keys \<open>e0\<close>, \<open>e1\<close>, ..., raises
  \<open>KeyError(key)\<close> for an unknown key and whatever its validation raises for an entry it
  refuses: \<open>accept_all\<close> refuses nothing, \<open>checked\<close> raises \<open>TypeError\<close> for a value that
  is not an object and \<open>ValueError\<close> for an object without a \<open>name\<close>.
\<close>

definition example_decode :: "bytes \<Rightarrow> pyexc + string" where
  "example_decode bs =
     (if list_all (\<lambda>b. b < 0x80) bs then Inr (map (\<lambda>b. char_of (unat b)) bs)
      else Inl (UnicodeDecodeError
                  ([CHR 0x27] @ ''utf-8'' @ [CHR 0x27] @ '' codec can'' @ [CHR 0x27]
                   @ ''t decode byte 0xff in position 0: invalid start byte'')))"

definition example_loads :: "string \<Rightarrow> pyexc + json" where
  "example_loads s =
     (if s = ''{}'' then Inr (JObj [])
      else if s = ''[]'' then Inr (JArr [])
      else Inl (JSONDecodeError ''Expecting value: line 1 column 1 (char 0)''))"

definition example_responses :: "int \<Rightarrow> string" where
  "example_responses code =
     (if code = 200 then ''OK''
      else if code = 201 then ''Created''
      else if code = 204 then ''No Content''
      else if code = 400 then ''Bad Request''
      else if code = 404 then ''Not Found''
      else if code = 405 then ''Method Not Allowed''
      else if code = 500 then ''Internal Server Error''
      else if code = 503 then ''Service Unavailable''
      else ''Unknown'')"

definition example_lib :: pylib where
  "example_lib =
     \<lparr>decode_utf8 = example_decode, json_loads = example_loads,
      responses = example_responses,
      format_exception = (\<lambda>e. [''Traceback (most recent call last):''])\<rparr>"

definition quoted :: "string \<Rightarrow> string" where
  "quoted k = [CHR 0x27] @ k @ [CHR 0x27]"

definition memory_service :: "(json \<Rightarrow> pyexc option) \<Rightarrow> bool \<Rightarrow> ((string \<times> json) list) service" where
  "memory_service validate rdy =
     \<lparr>uptime_millis = (\<lambda>s. (Inr 1500, s)),
      status = (\<lambda>s. (Inr (JObj [(''ready'', JBool rdy)]), s)),
      get_all_addresses = (\<lambda>s. (Inr (JObj s), s)),
      post_address = (\<lambda>v s.
        case validate v of
          Some e \<Rightarrow> (Inl e, s)
        | None \<Rightarrow> (let k = ''e'' @ str_nat (length s) in (Inr k, s @ [(k, v)]))),
      get_address = (\<lambda>k s.
        case map_of s k of
          None \<Rightarrow> (Inl (KeyError (quoted k)), s)
        | Some v \<Rightarrow> (Inr v, s)),
      put_address = (\<lambda>k v s.
        case map_of s k of
          None \<Rightarrow> (Inl (KeyError (quoted k)), s)
        | Some old \<Rightarrow>
            (case validate v of
               Some e \<Rightarrow> (Inl e, s)
             | None \<Rightarrow> (Inr (), map (\<lambda>(k', v'). if k' = k then (k', v) else (k', v')) s))),
      delete_address = (\<lambda>k s.
        case map_of s k of
          None \<Rightarrow> (Inl (KeyError (quoted k)), s)
        | Some old \<Rightarrow> (Inr (), filter (\<lambda>(k', v'). k' \<noteq> k) s))\<rparr>"

definition accept_all :: "json \<Rightarrow> pyexc option" where
  "accept_all v = None"

fun checked :: "json \<Rightarrow> pyexc option" where
  "checked (JObj kvs) =
     (if map_of kvs ''name'' = None then Some (ValueError ''name is required'') else None)"
| "checked v = Some (TypeError ''entry must be an object'')"

definition example_request :: "string \<Rightarrow> string \<Rightarrow> bytes \<Rightarrow> request" where
  "example_request m p b =
     \<lparr>method = m, uri = p, path = p, remote_ip = ''127.0.0.1'', body = b, time_text = ''0.52''\<rparr>"

subsection \<open>Notions used in the statements\<close>

text \<open>
  The body \<open>write_error\<close> builds, the status and reason the error path gives an
  exception, the world a request starts in, the text of the debug line, and what the
  request cycle does with the outcome of the method.
\<close>

definition envelope :: "bool \<Rightarrow> pylib \<Rightarrow> request \<Rightarrow> int \<Rightarrow> string \<Rightarrow> pyexc \<Rightarrow> json" where
  "envelope debug lib req code msg e =
     JObj ([(''method'', JStr (method req)), (''uri'', JStr (path req)),
            (''code'', JInt code), (''message'', JStr msg)]
           @ (if debug then [(''trace'', JStr (join [CHR 0x0A] (format_exception lib e)))]
              else []))"

definition error_code :: "pyexc \<Rightarrow> int" where
  "error_code e = (case e of HTTPError c r \<Rightarrow> c | _ \<Rightarrow> 500)"

definition error_reason :: "pylib \<Rightarrow> int \<Rightarrow> pyexc \<Rightarrow> string" where
  "error_reason lib code e =
     (case e of
        HTTPError c (Some r) \<Rightarrow> if r \<noteq> [] then r else responses lib code
      | _ \<Rightarrow> responses lib code)"

definition start :: "pylib \<Rightarrow> 's \<Rightarrow> 's world" where
  "start lib s = \<lparr>hnd = new_handler lib, store = s, trace = []\<rparr>"

definition request_line :: "request \<Rightarrow> string" where
  "request_line req = ''REQUEST: '' @ method req @ '' '' @ uri req @ '' ('' @ remote_ip req @ '')''"

definition complete ::
  "settings \<Rightarrow> pylib \<Rightarrow> request \<Rightarrow> (pyexc + unit) \<times> 's world \<Rightarrow> 's world" where
  "complete app lib req r =
     (case r of
        (Inl e, w) \<Rightarrow> handle_request_exception app lib req e w
      | (Inr u, w) \<Rightarrow>
          if finished (hnd w) then w
          else (case finish req JNull w of
                  (Inl e, w') \<Rightarrow> handle_request_exception app lib req e w'
                | (Inr u', w') \<Rightarrow> w'))"

lemma digit_values:
  "digit 0 = CHR ''0''" "digit 1 = CHR ''1''" "digit (Suc 0) = CHR ''1''" "digit 2 = CHR ''2''"
  "digit 3 = CHR ''3''" "digit 4 = CHR ''4''" "digit 5 = CHR ''5''" "digit 6 = CHR ''6''"
  "digit 7 = CHR ''7''" "digit 8 = CHR ''8''" "digit 9 = CHR ''9''"
  by code_simp+

lemma example_decode_bodies:
  "example_decode [0x7B, 0x7D] = Inr ''{}''"
  "example_decode [0x5B, 0x5D] = Inr ''[]''"
  "example_decode [0x6F, 0x6F, 0x70, 0x73] = Inr ''oops''"
  "example_decode [0xFF] =
     Inl (UnicodeDecodeError
            ([CHR 0x27] @ ''utf-8'' @ [CHR 0x27] @ '' codec can'' @ [CHR 0x27]
             @ ''t decode byte 0xff in position 0: invalid start byte''))"
  by code_simp+

lemmas prims = set_status_def set_header_def get_status_def clear_def emit_def invoke_def
  finish_def log_function_def except_def
lemmas cycle = execute_def initialize_def prepare_def dispatch_def SUPPORTED_METHODS_def
  BaseRequestHandler_prepare_def new_handler_def handle_request_exception_def send_error_def
  write_error_def unimplemented_def DefaultRequestHandler_prepare_def
  DefaultRequestHandler_initialize_def
lemmas routes = find_handler_def match_literal_def ADDRESSBOOK_REGEX_def
  ADDRESSBOOK_ENTRY_REGEX_def opt_slash_end_def at_end_def id_char_def
lemmas examples = example_lib_def example_decode_bodies example_loads_def example_responses_def
  memory_service_def accept_all_def example_request_def quoted_def
  make_addrservice_app_def

section \<open>Basic facts about the request cycle\<close>

lemma calls_append [simp]: "calls (xs @ ys) = calls xs @ calls ys"
  by (induction xs rule: calls.induct) simp_all

lemma log_function_fields [simp]:
  "hnd (log_function req w) = hnd w"
  "store (log_function req w) = store w"
  "calls (trace (log_function req w)) = calls (trace w)"
  by (simp_all add: log_function_def emit_def Let_def)

lemma finish_ok:
  "\<not> finished (hnd w) \<Longrightarrow> c = JNull \<or> writable c \<Longrightarrow>
   finish req c w =
     (Inr (), log_function req
        (w\<lparr>hnd := (hnd w)\<lparr>chunk := (if c = JNull then chunk (hnd w) else Some c),
                            finished := True\<rparr>\<rparr>))"
  by (auto simp: finish_def)

lemma write_error_hnd:
  assumes "\<not> finished (hnd w)"
  shows "hnd (snd (write_error tb lib req code (Some e) w))
           = (hnd w)\<lparr>headers := (headers (hnd w))(''Content-Type'' \<mapsto> ''application/json; charset=UTF-8''),
                      chunk := Some (envelope tb lib req code (reason (hnd w)) e),
                      finished := True\<rparr>"
    and "store (snd (write_error tb lib req code (Some e) w)) = store w"
    and "calls (trace (snd (write_error tb lib req code (Some e) w))) = calls (trace w)"
  using assms
  by (simp_all add: write_error_def set_header_def finish_ok envelope_def Let_def)

lemma send_error_result:
  assumes "\<not> finished (hnd w)"
  shows "hnd (send_error app lib req code e w)
           = \<lparr>status_code = code, reason = error_reason lib code e,
              headers = [''Content-Type'' \<mapsto> ''application/json; charset=UTF-8''],
              chunk = Some (envelope (serve_traceback app) lib req code (error_reason lib code e) e),
              finished = True\<rparr>"
    and "store (send_error app lib req code e w) = store w"
    and "calls (trace (send_error app lib req code e w)) = calls (trace w)"
proof -
  let ?w2 = "set_status lib code
               (case e of HTTPError c (Some r) \<Rightarrow> if r \<noteq> [] then Some r else None | _ \<Rightarrow> None)
               (clear lib w)"
  have nf: "\<not> finished (hnd ?w2)"
    using assms by (simp add: set_status_def clear_def)
  have rs: "reason (hnd ?w2) = error_reason lib code e"
    by (simp add: set_status_def clear_def error_reason_def split: pyexc.splits option.splits)
  have st: "status_code (hnd ?w2) = code" "headers (hnd ?w2) = Map.empty"
    "store ?w2 = store w" "trace ?w2 = trace w"
    by (simp_all add: set_status_def clear_def)
  show "hnd (send_error app lib req code e w)
           = \<lparr>status_code = code, reason = error_reason lib code e,
              headers = [''Content-Type'' \<mapsto> ''application/json; charset=UTF-8''],
              chunk = Some (envelope (serve_traceback app) lib req code (error_reason lib code e) e),
              finished = True\<rparr>"
    unfolding send_error_def Let_def
    by (simp add: write_error_hnd [OF nf] rs st)
  show "store (send_error app lib req code e w) = store w"
    unfolding send_error_def Let_def
    by (simp add: write_error_hnd [OF nf] st)
  show "calls (trace (send_error app lib req code e w)) = calls (trace w)"
    unfolding send_error_def Let_def
    by (simp add: write_error_hnd [OF nf] st)
qed

lemma handle_result:
  assumes "\<not> finished (hnd w)"
  shows "hnd (handle_request_exception app lib req e w)
           = \<lparr>status_code = error_code e, reason = error_reason lib (error_code e) e,
              headers = [''Content-Type'' \<mapsto> ''application/json; charset=UTF-8''],
              chunk = Some (envelope (serve_traceback app) lib req (error_code e)
                              (error_reason lib (error_code e) e) e),
              finished = True\<rparr>"
    and "store (handle_request_exception app lib req e w) = store w"
    and "calls (trace (handle_request_exception app lib req e w)) = calls (trace w)"
  using assms
  by (cases e; simp add: handle_request_exception_def error_code_def send_error_result)+

text \<open>A routed request with a supported verb: the cycle up to the call of the method.\<close>

lemma execute_routed:
  assumes "method req \<in> set SUPPORTED_METHODS"
    and "find_handler (path req) = cls"
    and "cls \<noteq> DefaultRequestHandler"
  shows "execute app lib svc req s
           = complete app lib req
               (dispatch lib svc cls req (emit DEBUG (request_line req) False (start lib s)))"
  using assms
  by (cases cls)
     (simp_all add: execute_def initialize_def prepare_def BaseRequestHandler_prepare_def
        request_line_def start_def emit_def new_handler_def complete_def Let_def
        split: prod.splits sum.splits)

lemma start_fields [simp]:
  "\<not> finished (hnd (emit DEBUG msg x (start lib s)))"
  "store (emit DEBUG msg x (start lib s)) = s"
  "calls (trace (emit DEBUG msg x (start lib s))) = []"
  by (simp_all add: emit_def start_def new_handler_def)

text \<open>The two methods that read a body, when \<open>json.loads\<close> raises.\<close>

lemma post_not_json:
  assumes "decode_utf8 lib (body req) = Inr txt" and "json_loads lib txt = Inl (JSONDecodeError m)"
  shows "AddressBookRequestHandler_post lib svc req w
           = (Inl (HTTPError 400 (Some ''Invalid JSON body'')), w)"
  using assms by (simp add: AddressBookRequestHandler_post_def except_def)

lemma put_not_json:
  assumes "decode_utf8 lib (body req) = Inr txt" and "json_loads lib txt = Inl (JSONDecodeError m)"
  shows "AddressBookEntryRequestHandler_put lib svc req ident w
           = (Inl (HTTPError 400 (Some ''Invalid JSON body'')), w)"
  using assms by (simp add: AddressBookEntryRequestHandler_put_def except_def)

lemma body_field_envelope:
  "body_field ''message'' (h\<lparr>chunk := Some (envelope d lib req code msg e)\<rparr>) = Some (JStr msg)"
  "body_field ''code'' (h\<lparr>chunk := Some (envelope d lib req code msg e)\<rparr>) = Some (JInt code)"
  by (simp_all add: body_field_def envelope_def)

lemma supported [simp]:
  "''GET'' \<in> set SUPPORTED_METHODS" "''POST'' \<in> set SUPPORTED_METHODS"
  "''PUT'' \<in> set SUPPORTED_METHODS" "''DELETE'' \<in> set SUPPORTED_METHODS"
  by (simp_all add: SUPPORTED_METHODS_def)

section \<open>Creating an entry\<close>



section \<open>Health endpoints\<close>






section \<open>The access log\<close>

text \<open>
  The severity of the line follows the status: below 400 \<open>info\<close>, below 500 \<open>warning\<close>,
  otherwise \<open>error\<close>; exactly one line is written.
\<close>

lemma log_function_severity:
  "\<exists>msg. trace (log_function req w) = trace w @
     [Log (if status_code (hnd w) < 400 then INFO
           else if status_code (hnd w) < 500 then WARNING else ERROR) msg True]"
  by (simp add: log_function_def emit_def get_status_def Let_def)

text \<open>
  C7. The claim gives the line as \<open>RESPONSE: {status} {method} {uri} ({ip}) {time}ms\<close>.
  On a \<open>GET /healthz\<close> that is answered with 200 the effects of the request are the debug
  line, the collaborator call and one line at severity \<open>info\<close>, and that line begins with
  \<open>RESPOSE:\<close>.
\<close>

theorem access_log_line:
  "trace (execute (make_addrservice_app False) example_lib (memory_service accept_all True)
       (example_request ''GET'' ''/healthz'' []) [])
     = [Log DEBUG ''REQUEST: GET /healthz (127.0.0.1)'' False,
        Call Uptime_millis,
        Log INFO ''RESPOSE: 200 GET /healthz (127.0.0.1) 0.52ms'' True]"
  by (simp add: cycle routes examples LivenessRequestHandler_get_def prims Let_def
      str_int_def str_nat.simps digit_values)

section \<open>The error envelope\<close>

text \<open>
  C6. Whenever an exception reaches the error path of an unfinished request, the response
  body is the JSON object with the keys \<open>method\<close>, \<open>uri\<close>, \<open>code\<close> and \<open>message\<close>, in
  which \<open>code\<close> is the status of the response, followed by the key \<open>trace\<close> exactly when
  the application was made with the debug flag; the response carries
  \<open>Content-Type: application/json; charset=UTF-8\<close>.
\<close>

theorem error_envelope:
  assumes "\<not> finished (hnd w)"
  shows "chunk (hnd (handle_request_exception (make_addrservice_app debug) lib req e w))
           = Some (JObj ([(''method'', JStr (method req)),
                          (''uri'', JStr (path req)),
                          (''code'', JInt (status_code
                             (hnd (handle_request_exception (make_addrservice_app debug) lib req e w)))),
                          (''message'', JStr (reason
                             (hnd (handle_request_exception (make_addrservice_app debug) lib req e w))))]
                         @ (if debug
                            then [(''trace'', JStr (join [CHR 0x0A] (format_exception lib e)))]
                            else []))) \<and>
         headers (hnd (handle_request_exception (make_addrservice_app debug) lib req e w))
           ''Content-Type'' = Some ''application/json; charset=UTF-8''"
  by (simp add: handle_result [OF assms] envelope_def make_addrservice_app_def)

theorem error_envelope_witness:
  "chunk (hnd (handle_request_exception (make_addrservice_app True) example_lib
       (example_request ''GET'' ''/addressbook/zz'' []) (HTTPError 404 (Some ''gone''))
       (start example_lib ([] :: (string \<times> json) list))))
     = Some (JObj [(''method'', JStr ''GET''), (''uri'', JStr ''/addressbook/zz''),
                   (''code'', JInt 404), (''message'', JStr ''gone''),
                   (''trace'', JStr ''Traceback (most recent call last):'')]) \<and>
   headers (hnd (handle_request_exception (make_addrservice_app True) example_lib
       (example_request ''GET'' ''/addressbook/zz'' []) (HTTPError 404 (Some ''gone''))
       (start example_lib ([] :: (string \<times> json) list)))) ''Content-Type'' = Some ''application/json; charset=UTF-8''"
proof -
  have nf: "\<not> finished (hnd (start example_lib ([] :: (string \<times> json) list)))"
    by (simp add: start_def new_handler_def)
  have st: "status_code (hnd (handle_request_exception (make_addrservice_app True) example_lib
       (example_request ''GET'' ''/addressbook/zz'' []) (HTTPError 404 (Some ''gone''))
       (start example_lib ([] :: (string \<times> json) list)))) = 404"
    "reason (hnd (handle_request_exception (make_addrservice_app True) example_lib
       (example_request ''GET'' ''/addressbook/zz'' []) (HTTPError 404 (Some ''gone''))
       (start example_lib ([] :: (string \<times> json) list)))) = ''gone''"
    by (simp_all add: handle_result [OF nf] error_code_def error_reason_def)
  note env = error_envelope [OF nf, of True example_lib
      "example_request ''GET'' ''/addressbook/zz'' []" "HTTPError 404 (Some ''gone'')"]
  show ?thesis
    using env unfolding st
    by (simp add: example_request_def example_lib_def)
qed

section \<open>Bodies that are not JSON\<close>

lemma invalid_json_post:
  assumes "method req = ''POST''" and "find_handler (path req) = AddressBookRequestHandler"
    and "decode_utf8 lib (body req) = Inr txt" and "json_loads lib txt = Inl (JSONDecodeError m)"
  shows "status_code (hnd (execute app lib svc req s)) = 400 \<and>
         body_field ''message'' (hnd (execute app lib svc req s)) = Some (JStr ''Invalid JSON body'') \<and>
         calls (trace (execute app lib svc req s)) = [] \<and>
         store (execute app lib svc req s) = s"
proof -
  have ex: "execute app lib svc req s
              = handle_request_exception app lib req (HTTPError 400 (Some ''Invalid JSON body''))
                  (emit DEBUG (request_line req) False (start lib s))"
    using assms
    by (simp add: execute_routed [where cls = AddressBookRequestHandler] dispatch_def
        post_not_json complete_def)
  show ?thesis
    unfolding ex
    by (simp add: handle_result error_code_def error_reason_def body_field_def envelope_def)
qed

lemma invalid_json_put:
  assumes "method req = ''PUT''"
    and "find_handler (path req) = AddressBookEntryRequestHandler ident"
    and "decode_utf8 lib (body req) = Inr txt" and "json_loads lib txt = Inl (JSONDecodeError m)"
  shows "status_code (hnd (execute app lib svc req s)) = 400 \<and>
         body_field ''message'' (hnd (execute app lib svc req s)) = Some (JStr ''Invalid JSON body'') \<and>
         calls (trace (execute app lib svc req s)) = [] \<and>
         store (execute app lib svc req s) = s"
proof -
  have ex: "execute app lib svc req s
              = handle_request_exception app lib req (HTTPError 400 (Some ''Invalid JSON body''))
                  (emit DEBUG (request_line req) False (start lib s))"
    using assms
    by (simp add: execute_routed [where cls = "AddressBookEntryRequestHandler ident"] dispatch_def
        put_not_json complete_def)
  show ?thesis
    unfolding ex
    by (simp add: handle_result error_code_def error_reason_def body_field_def envelope_def)
qed

lemma invoke_fields:
  "f (store w) = (r, s') \<Longrightarrow>
   invoke c f w = (r, w\<lparr>store := s', trace := trace w @ [Call c]\<rparr>)"
  by (simp add: invoke_def)

lemma type_error_post:
  assumes "method req = ''POST''" and "find_handler (path req) = AddressBookRequestHandler"
    and "decode_utf8 lib (body req) = Inr txt" and "json_loads lib txt = Inr v"
    and "post_address svc v s = (Inl (TypeError m), s')"
  shows "status_code (hnd (execute app lib svc req s)) = 400 \<and>
         body_field ''message'' (hnd (execute app lib svc req s)) = Some (JStr ''Invalid JSON body'') \<and>
         calls (trace (execute app lib svc req s)) = [Post_address v]"
proof -
  let ?w = "emit DEBUG (request_line req) False (start lib s)"
  have ex: "execute app lib svc req s
              = handle_request_exception app lib req (HTTPError 400 (Some ''Invalid JSON body''))
                  (?w\<lparr>store := s', trace := trace ?w @ [Call (Post_address v)]\<rparr>)"
    using assms
    by (simp add: execute_routed [where cls = AddressBookRequestHandler] dispatch_def
        AddressBookRequestHandler_post_def except_def invoke_fields complete_def)
  show ?thesis
    unfolding ex
    by (simp add: handle_result error_code_def error_reason_def body_field_def envelope_def)
qed

lemma type_error_put:
  assumes "method req = ''PUT''"
    and "find_handler (path req) = AddressBookEntryRequestHandler ident"
    and "decode_utf8 lib (body req) = Inr txt" and "json_loads lib txt = Inr v"
    and "put_address svc ident v s = (Inl (TypeError m), s')"
  shows "status_code (hnd (execute app lib svc req s)) = 400 \<and>
         body_field ''message'' (hnd (execute app lib svc req s)) = Some (JStr ''Invalid JSON body'') \<and>
         calls (trace (execute app lib svc req s)) = [Put_address ident v]"
proof -
  let ?w = "emit DEBUG (request_line req) False (start lib s)"
  have ex: "execute app lib svc req s
              = handle_request_exception app lib req (HTTPError 400 (Some ''Invalid JSON body''))
                  (?w\<lparr>store := s', trace := trace ?w @ [Call (Put_address ident v)]\<rparr>)"
    using assms
    by (simp add: execute_routed [where cls = "AddressBookEntryRequestHandler ident"] dispatch_def
        AddressBookEntryRequestHandler_put_def except_def invoke_fields complete_def)
  show ?thesis
    unfolding ex
    by (simp add: handle_result error_code_def error_reason_def body_field_def envelope_def)
qed

text \<open>
  C2 (as the code has it). For a \<open>POST\<close> on the collection route and for a \<open>PUT\<close> on an
  entry route whose body is text: when \<open>json.loads\<close> raises \<open>JSONDecodeError\<close> on it, the
  response is 400 with message \<open>Invalid JSON body\<close>, no collaborator operation is invoked
  and the collaborator's state is unchanged. A body that decodes is passed to the
  collaborator's create or update operation whatever its top-level type; when that
  operation raises \<open>TypeError\<close>, the response is 400 with message \<open>Invalid JSON body\<close>.
\<close>

theorem invalid_json_body:
  assumes "(method req = ''POST'' \<and> find_handler (path req) = AddressBookRequestHandler) \<or>
           (method req = ''PUT'' \<and>
            find_handler (path req) = AddressBookEntryRequestHandler ident)"
    and "decode_utf8 lib (body req) = Inr txt"
  shows "(json_loads lib txt = Inl (JSONDecodeError m) \<longrightarrow>
            status_code (hnd (execute app lib svc req s)) = 400 \<and>
            body_field ''message'' (hnd (execute app lib svc req s))
              = Some (JStr ''Invalid JSON body'') \<and>
            calls (trace (execute app lib svc req s)) = [] \<and>
            store (execute app lib svc req s) = s) \<and>
         (json_loads lib txt = Inr v \<and>
          ((method req = ''POST'' \<and> post_address svc v s = (Inl (TypeError m'), s')) \<or>
           (method req = ''PUT'' \<and> put_address svc ident v s = (Inl (TypeError m'), s'))) \<longrightarrow>
            status_code (hnd (execute app lib svc req s)) = 400 \<and>
            body_field ''message'' (hnd (execute app lib svc req s))
              = Some (JStr ''Invalid JSON body'') \<and>
            calls (trace (execute app lib svc req s))
              = [if method req = ''POST'' then Post_address v else Put_address ident v])"
proof (rule conjI; rule impI)
  assume j: "json_loads lib txt = Inl (JSONDecodeError m)"
  from assms(1)
  show "status_code (hnd (execute app lib svc req s)) = 400 \<and>
        body_field ''message'' (hnd (execute app lib svc req s))
          = Some (JStr ''Invalid JSON body'') \<and>
        calls (trace (execute app lib svc req s)) = [] \<and>
        store (execute app lib svc req s) = s"
  proof
    assume r: "method req = ''POST'' \<and> find_handler (path req) = AddressBookRequestHandler"
    show ?thesis
      by (rule invalid_json_post [OF conjunct1 [OF r] conjunct2 [OF r] assms(2) j])
  next
    assume r: "method req = ''PUT'' \<and>
               find_handler (path req) = AddressBookEntryRequestHandler ident"
    show ?thesis
      by (rule invalid_json_put [OF conjunct1 [OF r] conjunct2 [OF r] assms(2) j])
  qed
next
  assume t: "json_loads lib txt = Inr v \<and>
          ((method req = ''POST'' \<and> post_address svc v s = (Inl (TypeError m'), s')) \<or>
           (method req = ''PUT'' \<and> put_address svc ident v s = (Inl (TypeError m'), s')))"
  note v = conjunct1 [OF t]
  from assms(1)
  show "status_code (hnd (execute app lib svc req s)) = 400 \<and>
        body_field ''message'' (hnd (execute app lib svc req s))
          = Some (JStr ''Invalid JSON body'') \<and>
        calls (trace (execute app lib svc req s))
          = [if method req = ''POST'' then Post_address v else Put_address ident v]"
  proof
    assume r: "method req = ''POST'' \<and> find_handler (path req) = AddressBookRequestHandler"
    note mt = conjunct1 [OF r]
    from conjunct2 [OF t] have p: "post_address svc v s = (Inl (TypeError m'), s')"
      unfolding mt by simp
    have "status_code (hnd (execute app lib svc req s)) = 400 \<and>
          body_field ''message'' (hnd (execute app lib svc req s))
            = Some (JStr ''Invalid JSON body'') \<and>
          calls (trace (execute app lib svc req s)) = [Post_address v]"
      by (rule type_error_post [OF mt conjunct2 [OF r] assms(2) v p])
    then show ?thesis
      unfolding mt by simp
  next
    assume r: "method req = ''PUT'' \<and>
               find_handler (path req) = AddressBookEntryRequestHandler ident"
    note mt = conjunct1 [OF r]
    from conjunct2 [OF t] have p: "put_address svc ident v s = (Inl (TypeError m'), s')"
      unfolding mt by simp
    have "status_code (hnd (execute app lib svc req s)) = 400 \<and>
          body_field ''message'' (hnd (execute app lib svc req s))
            = Some (JStr ''Invalid JSON body'') \<and>
          calls (trace (execute app lib svc req s)) = [Put_address ident v]"
      by (rule type_error_put [OF mt conjunct2 [OF r] assms(2) v p])
    then show ?thesis
      unfolding mt by simp
  qed
qed

text \<open>
  The claim as written also covers a body that decodes to a value that is not an object,
  and says the collaborator is not invoked for it. On the request below the body is the
  JSON text \<open>[]\<close>: the list is passed to \<open>post_address\<close>, which stores it, and the
  response is 201.
\<close>

theorem invalid_json_body_counterexample:
  "json_loads example_lib ''[]'' = Inr (JArr []) \<and>
   status_code (hnd (execute (make_addrservice_app False) example_lib
       (memory_service accept_all True)
       (example_request ''POST'' ''/addressbook'' [0x5B, 0x5D]) [])) = 201 \<and>
   calls (trace (execute (make_addrservice_app False) example_lib
       (memory_service accept_all True)
       (example_request ''POST'' ''/addressbook'' [0x5B, 0x5D]) [])) = [Post_address (JArr [])] \<and>
   store (execute (make_addrservice_app False) example_lib
       (memory_service accept_all True)
       (example_request ''POST'' ''/addressbook'' [0x5B, 0x5D]) []) = [(''e0'', JArr [])]"
  by (simp add: cycle routes examples AddressBookRequestHandler_post_def prims Let_def
      ADDRESSBOOK_ENTRY_URI_FORMAT_STR_def str_nat.simps digit_values)

theorem invalid_json_body_witness:
  "status_code (hnd (execute (make_addrservice_app False) example_lib
       (memory_service accept_all True)
       (example_request ''POST'' ''/addressbook'' [0x6F, 0x6F, 0x70, 0x73]) [])) = 400 \<and>
   body_field ''message'' (hnd (execute (make_addrservice_app False) example_lib
       (memory_service accept_all True)
       (example_request ''POST'' ''/addressbook'' [0x6F, 0x6F, 0x70, 0x73]) []))
     = Some (JStr ''Invalid JSON body'') \<and>
   calls (trace (execute (make_addrservice_app False) example_lib
       (memory_service accept_all True)
       (example_request ''POST'' ''/addressbook'' [0x6F, 0x6F, 0x70, 0x73]) [])) = [] \<and>
   store (execute (make_addrservice_app False) example_lib
       (memory_service accept_all True)
       (example_request ''POST'' ''/addressbook'' [0x6F, 0x6F, 0x70, 0x73]) []) = [] \<and>
   status_code (hnd (execute (make_addrservice_app False) example_lib
       (memory_service checked True)
       (example_request ''PUT'' ''/addressbook/e0'' [0x5B, 0x5D]) [(''e0'', JObj [])])) = 400 \<and>
   body_field ''message'' (hnd (execute (make_addrservice_app False) example_lib
       (memory_service checked True)
       (example_request ''PUT'' ''/addressbook/e0'' [0x5B, 0x5D]) [(''e0'', JObj [])]))
     = Some (JStr ''Invalid JSON body'') \<and>
   calls (trace (execute (make_addrservice_app False) example_lib
       (memory_service checked True)
       (example_request ''PUT'' ''/addressbook/e0'' [0x5B, 0x5D]) [(''e0'', JObj [])]))
     = [Put_address ''e0'' (JArr [])]"
proof -
  let ?post = "example_request ''POST'' ''/addressbook'' [0x6F, 0x6F, 0x70, 0x73]"
  let ?put = "example_request ''PUT'' ''/addressbook/e0'' [0x5B, 0x5D]"
  have p1: "(method ?post = ''POST'' \<and> find_handler (path ?post) = AddressBookRequestHandler) \<or>
            (method ?post = ''PUT'' \<and>
             find_handler (path ?post) = AddressBookEntryRequestHandler ''e0'')"
    by (simp add: example_request_def routes)
  have p2: "decode_utf8 example_lib (body ?post) = Inr ''oops''"
    by (simp add: example_lib_def example_request_def example_decode_bodies)
  have p3: "json_loads example_lib ''oops''
              = Inl (JSONDecodeError ''Expecting value: line 1 column 1 (char 0)'')"
    by (simp add: example_lib_def example_loads_def)
  have q1: "(method ?put = ''POST'' \<and> find_handler (path ?put) = AddressBookRequestHandler) \<or>
            (method ?put = ''PUT'' \<and>
             find_handler (path ?put) = AddressBookEntryRequestHandler ''e0'')"
    by (simp add: example_request_def routes)
  have q2: "decode_utf8 example_lib (body ?put) = Inr ''[]''"
    by (simp add: example_lib_def example_request_def example_decode_bodies)
  have q3: "json_loads example_lib ''[]'' = Inr (JArr []) \<and>
            ((method ?put = ''POST'' \<and>
              post_address (memory_service checked True) (JArr []) [(''e0'', JObj [])]
                = (Inl (TypeError ''entry must be an object''), [(''e0'', JObj [])])) \<or>
             (method ?put = ''PUT'' \<and>
              put_address (memory_service checked True) ''e0'' (JArr []) [(''e0'', JObj [])]
                = (Inl (TypeError ''entry must be an object''), [(''e0'', JObj [])])))"
    by (simp add: example_lib_def example_loads_def example_request_def memory_service_def)
  have mp: "method ?put \<noteq> ''POST''"
    by (simp add: example_request_def)
  note a = invalid_json_body [OF p1 p2, THEN conjunct1, rule_format, OF p3]
  note b = invalid_json_body [OF q1 q2, THEN conjunct2, rule_format, OF q3]
  show ?thesis
    using a [of "make_addrservice_app False" "memory_service accept_all True" "[]"]
      b [of "make_addrservice_app False"]
    by (simp add: mp)
qed

section \<open>An undecodable body\<close>

text \<open>
  When \<open>bytes.decode\<close> raises on the body, \<open>json.loads\<close> is not reached: the
  \<open>UnicodeDecodeError\<close> is a \<open>ValueError\<close>, and the handler forwards its text.
\<close>

lemma undecodable_post:
  assumes "method req = ''POST''" and "find_handler (path req) = AddressBookRequestHandler"
    and "decode_utf8 lib (body req) = Inl (UnicodeDecodeError m)" and "m \<noteq> []"
  shows "status_code (hnd (execute app lib svc req s)) = 400 \<and>
         body_field ''message'' (hnd (execute app lib svc req s)) = Some (JStr m) \<and>
         calls (trace (execute app lib svc req s)) = [] \<and>
         store (execute app lib svc req s) = s"
proof -
  have ex: "execute app lib svc req s
              = handle_request_exception app lib req (HTTPError 400 (Some m))
                  (emit DEBUG (request_line req) False (start lib s))"
    using assms
    by (simp add: execute_routed [where cls = AddressBookRequestHandler] dispatch_def
        AddressBookRequestHandler_post_def except_def complete_def)
  show ?thesis
    unfolding ex using assms(4)
    by (simp add: handle_result error_code_def error_reason_def body_field_def envelope_def)
qed

text \<open>
  C10. The claim says that a body that fails to decode as JSON is answered with 400 and
  the message \<open>Invalid JSON body\<close>. For the body that is the single byte \<open>0xFF\<close>, which
  is not UTF-8, hence not JSON, the response is 400, no collaborator operation is invoked
  and the state is unchanged, but the message is the codec's.
\<close>

theorem undecodable_body_message:
  "status_code (hnd (execute (make_addrservice_app False) example_lib
       (memory_service accept_all True)
       (example_request ''POST'' ''/addressbook'' [0xFF]) [])) = 400 \<and>
   body_field ''message'' (hnd (execute (make_addrservice_app False) example_lib
       (memory_service accept_all True)
       (example_request ''POST'' ''/addressbook'' [0xFF]) []))
     = Some (JStr ([CHR 0x27] @ ''utf-8'' @ [CHR 0x27] @ '' codec can'' @ [CHR 0x27]
                   @ ''t decode byte 0xff in position 0: invalid start byte'')) \<and>
   body_field ''message'' (hnd (execute (make_addrservice_app False) example_lib
       (memory_service accept_all True)
       (example_request ''POST'' ''/addressbook'' [0xFF]) []))
     \<noteq> Some (JStr ''Invalid JSON body'') \<and>
   calls (trace (execute (make_addrservice_app False) example_lib
       (memory_service accept_all True)
       (example_request ''POST'' ''/addressbook'' [0xFF]) [])) = [] \<and>
   store (execute (make_addrservice_app False) example_lib
       (memory_service accept_all True)
       (example_request ''POST'' ''/addressbook'' [0xFF]) []) = []"
  by (simp add: cycle routes examples AddressBookRequestHandler_post_def prims Let_def
      body_field_def)

section \<open>Reading, replacing and deleting an entry\<close>











section \<open>The debug line\<close>

text \<open>Nothing in the request cycle removes an effect once recorded: the trace only grows.\<close>

lemma trace_unchanged [simp]:
  "trace (set_status lib code rsn w) = trace w"
  "trace (set_header name val w) = trace w"
  "trace (clear lib w) = trace w"
  by (simp_all add: set_status_def set_header_def clear_def)

lemma finish_grows: "prefix (trace w) (trace (snd (finish req c w)))"
  by (simp add: finish_def log_function_def emit_def Let_def)

lemma invoke_grows: "prefix (trace w) (trace (snd (invoke c f w)))"
  by (simp add: invoke_def split: prod.splits)

lemma except_snd [simp]: "snd (except r clauses) = snd r"
  by (simp add: except_def split: prod.splits sum.splits)

lemma after_invoke:
  assumes "invoke c f w = (r, w1)"
    and "prefix (trace w1) (trace w2)"
  shows "prefix (trace w) (trace w2)"
proof -
  have "prefix (trace w) (trace w1)"
    using invoke_grows [of w c f] assms(1) by simp
  then show ?thesis
    using assms(2) by (rule prefix_order.trans)
qed

lemma finish_after_set:
  "prefix (trace w) (trace (snd (finish req c (set_status lib code rsn w))))"
  "prefix (trace w) (trace (snd (finish req c (set_header name val (set_status lib code rsn w)))))"
  using finish_grows [of "set_status lib code rsn w" req c]
    finish_grows [of "set_header name val (set_status lib code rsn w)" req c]
  by simp_all

lemma liveness_grows:
  "prefix (trace w) (trace (snd (LivenessRequestHandler_get lib svc req w)))"
proof (cases "invoke Uptime_millis (uptime_millis svc) w")
  case (Pair r w1)
  show ?thesis
  proof (cases r)
    case (Inl e)
    with Pair show ?thesis
      using after_invoke [OF Pair, of w1] by (simp add: LivenessRequestHandler_get_def)
  next
    case (Inr n)
    with Pair show ?thesis
      using after_invoke [OF Pair finish_after_set(1)]
      by (simp add: LivenessRequestHandler_get_def Let_def)
  qed
qed

lemma readiness_grows:
  "prefix (trace w) (trace (snd (ReadinessRequestHandler_get lib svc req w)))"
proof (cases "invoke Status (status svc) w")
  case (Pair r w1)
  show ?thesis
  proof (cases r)
    case (Inl e)
    with Pair show ?thesis
      using after_invoke [OF Pair, of w1] by (simp add: ReadinessRequestHandler_get_def)
  next
    case (Inr info)
    with Pair show ?thesis
      using after_invoke [OF Pair, of w1] after_invoke [OF Pair finish_after_set(1)]
      by (simp add: ReadinessRequestHandler_get_def Let_def split: sum.splits)
  qed
qed

lemma collection_get_grows:
  "prefix (trace w) (trace (snd (AddressBookRequestHandler_get lib svc req w)))"
proof (cases "invoke Get_all_addresses (get_all_addresses svc) w")
  case (Pair r w1)
  show ?thesis
  proof (cases r)
    case (Inl e)
    with Pair show ?thesis
      using after_invoke [OF Pair, of w1] by (simp add: AddressBookRequestHandler_get_def)
  next
    case (Inr v)
    with Pair show ?thesis
      using after_invoke [OF Pair finish_after_set(1)]
      by (simp add: AddressBookRequestHandler_get_def)
  qed
qed

lemma entry_get_grows:
  "prefix (trace w) (trace (snd (AddressBookEntryRequestHandler_get lib svc req ident w)))"
proof (cases "invoke (Get_address ident) (get_address svc ident) w")
  case (Pair r w1)
  show ?thesis
  proof (cases r)
    case (Inl e)
    with Pair show ?thesis
      using after_invoke [OF Pair, of w1] by (simp add: AddressBookEntryRequestHandler_get_def)
  next
    case (Inr v)
    with Pair show ?thesis
      using after_invoke [OF Pair finish_after_set(1)]
      by (simp add: AddressBookEntryRequestHandler_get_def)
  qed
qed

lemma entry_delete_grows:
  "prefix (trace w) (trace (snd (AddressBookEntryRequestHandler_delete lib svc req ident w)))"
proof (cases "invoke (Delete_address ident) (delete_address svc ident) w")
  case (Pair r w1)
  show ?thesis
  proof (cases r)
    case (Inl e)
    with Pair show ?thesis
      using after_invoke [OF Pair, of w1] by (simp add: AddressBookEntryRequestHandler_delete_def)
  next
    case (Inr v)
    with Pair show ?thesis
      using after_invoke [OF Pair finish_after_set(1)]
      by (simp add: AddressBookEntryRequestHandler_delete_def)
  qed
qed

lemma post_grows:
  "prefix (trace w) (trace (snd (AddressBookRequestHandler_post lib svc req w)))"
proof (cases "decode_utf8 lib (body req)")
  case (Inl e)
  then show ?thesis
    by (simp add: AddressBookRequestHandler_post_def)
next
  case dec: (Inr t)
  show ?thesis
  proof (cases "json_loads lib t")
    case (Inl e)
    with dec show ?thesis
      by (simp add: AddressBookRequestHandler_post_def)
  next
    case addr: (Inr addr)
    show ?thesis
    proof (cases "invoke (Post_address addr) (post_address svc addr) w")
      case (Pair r w1)
      show ?thesis
      proof (cases r)
        case (Inl e)
        with Pair dec addr show ?thesis
          using after_invoke [OF Pair, of w1] by (simp add: AddressBookRequestHandler_post_def)
      next
        case (Inr ident)
        with Pair dec addr show ?thesis
          using after_invoke [OF Pair finish_after_set(2)]
          by (simp add: AddressBookRequestHandler_post_def Let_def)
      qed
    qed
  qed
qed

lemma put_grows:
  "prefix (trace w) (trace (snd (AddressBookEntryRequestHandler_put lib svc req ident w)))"
proof (cases "decode_utf8 lib (body req)")
  case (Inl e)
  then show ?thesis
    by (simp add: AddressBookEntryRequestHandler_put_def)
next
  case dec: (Inr t)
  show ?thesis
  proof (cases "json_loads lib t")
    case (Inl e)
    with dec show ?thesis
      by (simp add: AddressBookEntryRequestHandler_put_def)
  next
    case addr: (Inr addr)
    show ?thesis
    proof (cases "invoke (Put_address ident addr) (put_address svc ident addr) w")
      case (Pair r w1)
      show ?thesis
      proof (cases r)
        case (Inl e)
        with Pair dec addr show ?thesis
          using after_invoke [OF Pair, of w1]
          by (simp add: AddressBookEntryRequestHandler_put_def)
      next
        case (Inr u)
        with Pair dec addr show ?thesis
          using after_invoke [OF Pair finish_after_set(1)]
          by (simp add: AddressBookEntryRequestHandler_put_def)
      qed
    qed
  qed
qed

lemma dispatch_grows:
  "prefix (trace w) (trace (snd (dispatch lib svc cls req w)))"
  by (cases cls)
     (simp_all add: dispatch_def unimplemented_def liveness_grows readiness_grows
        collection_get_grows post_grows entry_get_grows put_grows entry_delete_grows)

lemma write_error_grows:
  "prefix (trace w) (trace (snd (write_error tb lib req code ei w)))"
  unfolding write_error_def Let_def
  using finish_grows [of "set_header ''Content-Type'' ''application/json; charset=UTF-8'' w"]
  by simp

lemma send_error_grows:
  "prefix (trace w) (trace (send_error app lib req code e w))"
proof -
  let ?w2 = "set_status lib code
               (case e of HTTPError c (Some r) \<Rightarrow> if r \<noteq> [] then Some r else None | _ \<Rightarrow> None)
               (clear lib w)"
  let ?w3 = "snd (write_error (serve_traceback app) lib req code (Some e) ?w2)"
  have a: "prefix (trace w) (trace ?w3)"
    using write_error_grows [of ?w2] by simp
  have b: "prefix (trace ?w3) (trace (snd (finish req JNull ?w3)))"
    by (rule finish_grows)
  show ?thesis
    unfolding send_error_def Let_def
    using a prefix_order.trans [OF a b] by simp
qed

lemma handle_grows:
  "prefix (trace w) (trace (handle_request_exception app lib req e w))"
  by (cases e) (simp_all add: handle_request_exception_def send_error_grows)

lemma complete_grows:
  "prefix (trace (snd r)) (trace (complete app lib req r))"
proof (cases r)
  case (Pair x w)
  show ?thesis
  proof (cases x)
    case (Inl e)
    with Pair show ?thesis
      by (simp add: complete_def handle_grows)
  next
    case (Inr u)
    show ?thesis
    proof (cases "finish req JNull w")
      case f: (Pair y w')
      have g: "prefix (trace w) (trace w')"
        using finish_grows [of w req JNull] f by simp
      have h: "prefix (trace w) (trace (handle_request_exception app lib req e w'))" for e
        using g handle_grows by (rule prefix_order.trans)
      show ?thesis
        using Pair Inr f g h by (simp add: complete_def split: sum.splits)
    qed
  qed
qed

text \<open>
  C8 (as the code has it). For every request with a verb the framework supports whose
  path matches one of the four declared routes, the first effect of the request is the
  debug-level line \<open>REQUEST: {method} {uri} ({ip})\<close>: it precedes every call on the
  collaborator and every other log line.
\<close>

theorem debug_line_first:
  assumes "method req \<in> set SUPPORTED_METHODS"
    and "find_handler (path req) \<noteq> DefaultRequestHandler"
  shows "\<exists>rest. trace (execute app lib svc req s)
           = Log DEBUG (''REQUEST: '' @ method req @ '' '' @ uri req @ '' ('' @ remote_ip req @ '')'')
               False # rest"
proof -
  let ?w1 = "emit DEBUG (request_line req) False (start lib s)"
  let ?r = "dispatch lib svc (find_handler (path req)) req ?w1"
  have ex: "execute app lib svc req s = complete app lib req ?r"
    by (rule execute_routed [OF assms(1) refl assms(2)])
  have t1: "trace ?w1 = [Log DEBUG (request_line req) False]"
    by (simp add: emit_def start_def)
  have "prefix (trace ?w1) (trace (snd ?r))"
    by (rule dispatch_grows)
  then have "prefix (trace ?w1) (trace (complete app lib req ?r))"
    using complete_grows by (rule prefix_order.trans)
  then obtain rest where "trace (execute app lib svc req s) = trace ?w1 @ rest"
    unfolding ex prefix_def by blast
  then show ?thesis
    unfolding t1 by (simp add: request_line_def)
qed

theorem debug_line_first_witness:
  "\<exists>rest. trace (execute (make_addrservice_app False) example_lib
       (memory_service accept_all True) (example_request ''GET'' ''/addressbook/zz'' [])
       ([] :: (string \<times> json) list))
     = Log DEBUG ''REQUEST: GET /addressbook/zz (127.0.0.1)'' False # rest"
proof -
  let ?req = "example_request ''GET'' ''/addressbook/zz'' []"
  have 1: "method ?req \<in> set SUPPORTED_METHODS"
    by (simp add: example_request_def)
  have 2: "find_handler (path ?req) \<noteq> DefaultRequestHandler"
    by (simp add: example_request_def routes)
  show ?thesis
    using debug_line_first [OF 1 2, of "make_addrservice_app False" example_lib
        "memory_service accept_all True" "[]"]
    by (simp add: example_request_def)
qed

text \<open>
  The claim as written includes the default handler. A request to a path that matches no
  route is answered by \<open>DefaultRequestHandler\<close>, whose \<open>prepare\<close> replaces the one that
  writes the debug line: the only effect of the request below is the access-log line.
\<close>

theorem debug_line_counterexample:
  "find_handler ''/nonexistent'' = DefaultRequestHandler \<and>
   trace (execute (make_addrservice_app False) example_lib (memory_service accept_all True)
       (example_request ''GET'' ''/nonexistent'' []) [])
     = [Log WARNING ''RESPOSE: 404 GET /nonexistent (127.0.0.1) 0.52ms'' True]"
proof -
  have r: "find_handler ''/nonexistent'' = DefaultRequestHandler"
    by (simp add: routes)
  have "trace (execute (make_addrservice_app False) example_lib (memory_service accept_all True)
       (example_request ''GET'' ''/nonexistent'' []) [])
     = [Log WARNING ''RESPOSE: 404 GET /nonexistent (127.0.0.1) 0.52ms'' True]"
    by (simp add: execute_def r example_request_def SUPPORTED_METHODS_def initialize_def
        prepare_def DefaultRequestHandler_initialize_def DefaultRequestHandler_prepare_def
        make_addrservice_app_def new_handler_def handle_request_exception_def send_error_def
        write_error_def prims Let_def str_int_def str_nat.simps digit_values)
  with r show ?thesis
    by simp
qed

section \<open>Identifiers pass through unchanged\<close>

lemma not_id_char [simp]: "\<not> id_char (CHR ''/'')" "\<not> id_char (CHR 0x0A)"
  by (simp_all add: id_char_def)


lemma finish_calls [simp]: "calls (trace (snd (finish req c w))) = calls (trace w)"
  by (simp add: finish_def)

lemma finish_cases:
  obtains e where "finish req c w = (Inl e, w)"
  | w' where "finish req c w = (Inr (), w')" and "finished (hnd w')"
      and "calls (trace w') = calls (trace w)"
  by (cases "finished (hnd w)"; cases "c \<noteq> JNull \<and> \<not> writable c") (auto simp: finish_def)

lemma handle_calls [simp]:
  "calls (trace (handle_request_exception app lib req e w)) = calls (trace w)"
proof (cases "finished (hnd w)")
  case True
  then show ?thesis
    by (simp add: handle_request_exception_def)
next
  case False
  then show ?thesis
    by (rule handle_result(3))
qed

lemma complete_calls [simp]:
  "calls (trace (complete app lib req r)) = calls (trace (snd r))"
proof (cases r)
  case (Pair x w)
  show ?thesis
  proof (cases x)
    case (Inl e)
    with Pair show ?thesis
      by (simp add: complete_def)
  next
    case (Inr u)
    have "calls (trace (snd (finish req JNull w))) = calls (trace w)"
      by simp
    with Pair Inr show ?thesis
      by (cases "finish req JNull w") (simp add: complete_def split: sum.splits)
  qed
qed









end
